theory Spec2Isabelle
  imports Main "HOL-Library.Finite_Map"
begin

section \<open>Data model\<close>

text \<open>
  The repository holds two versions of the bomb game. The sparse-line-map version
  keeps its program in an object keyed by line number (1-indexed, self-modifying through
  COPY); the fixed-length-array version in \<^verbatim>\<open>src/BombGame.js\<close> runs the
  level's array directly (0-indexed).

  Numbers are modelled as integers: every literal of the levels, every register value and
  every line number is an integer, as in section 3 of the specification. JavaScript's
  \<^verbatim>\<open>NaN\<close> (an emptied input field) and magnitudes beyond the exactly
  representable integers are outside the model. Strings are byte lists (UTF-8).

  An operand is a number or a string; reading \<^verbatim>\<open>args[i]\<close> past the end of the
  operand array yields \<^verbatim>\<open>undefined\<close>, which is the third constructor.
\<close>

datatype arg = Num int | Str string | Undefined

record instr =
  op :: string
  args :: "arg list"

text \<open>The object literal \<^verbatim>\<open>{ op: "EMPTY", args: [] }\<close>.\<close>

definition EMPTY :: instr where
  "EMPTY = \<lparr>op = ''EMPTY'', args = []\<rparr>"

text \<open>
  The program store of the sparse version: a JavaScript object whose keys are line
  numbers, that is a finite map.
\<close>

type_synonym store = "(int, instr) fmap"

text \<open>\<^verbatim>\<open>args[i]\<close>: out of range reads give \<^verbatim>\<open>undefined\<close>.\<close>

definition arg_at :: "arg list \<Rightarrow> nat \<Rightarrow> arg" where
  "arg_at as i = (if i < length as then as ! i else Undefined)"

section \<open>Program store: line insertion\<close>

text \<open>
  \<^verbatim>\<open>Object.keys(prog).map(Number).sort((a, b) => a - b)\<close>: the keys in ascending
  order.
\<close>

definition sortedKeys :: "store \<Rightarrow> int list" where
  "sortedKeys prog = sorted_list_of_set (fmdom' prog)"

text \<open>
  The body of the \<^verbatim>\<open>forEach\<close> of \<^verbatim>\<open>insertLine\<close>: one key is copied into the
  new object, shifted up by one when it is at or above the target. The key comes from
  \<^verbatim>\<open>Object.keys(prog)\<close>, so the lookup always finds it; the \<open>None\<close> branch is never
  taken.
\<close>

definition insertLine_body :: "store \<Rightarrow> int \<Rightarrow> int \<Rightarrow> store \<Rightarrow> store" where
  "insertLine_body prog target key newProg =
     (case fmlookup prog key of
        None \<Rightarrow> newProg
      | Some i \<Rightarrow> if key \<ge> target then fmupd (key + 1) i newProg else fmupd key i newProg)"

definition insertLine :: "store \<Rightarrow> int \<Rightarrow> instr \<Rightarrow> store" where
  "insertLine prog target newInstr =
     fmupd target newInstr (fold (insertLine_body prog target) (sortedKeys prog) fmempty)"

text \<open>\<^verbatim>\<open>program[line] || { op: "EMPTY", args: [] }\<close>: a missing line reads as EMPTY.\<close>

definition fetch :: "store \<Rightarrow> int \<Rightarrow> instr" where
  "fetch prog line = (case fmlookup prog line of Some i \<Rightarrow> i | None \<Rightarrow> EMPTY)"

section \<open>Viewport\<close>

text \<open>
  An entry of the display list: \<^verbatim>\<open>{ line: "...", instr: null }\<close> is \<open>Gap\<close>,
  \<^verbatim>\<open>{ line, instr }\<close> is \<open>Line\<close>.
\<close>

datatype display_line = Gap | Line int instr

text \<open>
  The \<^verbatim>\<open>Set\<close> filled by the first loop of \<^verbatim>\<open>getDisplayedProgram\<close> and the three
  \<^verbatim>\<open>add\<close> calls for the program counter.
\<close>

definition keysSet :: "store \<Rightarrow> int \<Rightarrow> int set" where
  "keysSet prog pc =
     insert (pc + 1) (insert pc (insert (pc - 1)
       (fold (\<lambda>num ks. insert (num + 1) (insert (num - 1) (insert num ks)))
          (sortedKeys prog) {})))"

text \<open>
  One turn of the \<^verbatim>\<open>for\<close> loop over the sorted keys: the gap marker when the
  key is more than one above its predecessor, then the line itself.
\<close>

definition displayEntry :: "store \<Rightarrow> int list \<Rightarrow> nat \<Rightarrow> display_line list" where
  "displayEntry prog keys i =
     (if i > 0 \<and> keys ! i - keys ! (i - 1) > 1 then [Gap] else []) @
     [Line (keys ! i) (fetch prog (keys ! i))]"

definition getDisplayedProgram :: "store \<Rightarrow> int \<Rightarrow> display_line list" where
  "getDisplayedProgram prog pc =
     (let keys = sorted_list_of_set (keysSet prog pc)
      in concat (map (displayEntry prog keys) [0 ..< length keys]))"

section \<open>Value resolver\<close>

text \<open>
  \<^verbatim>\<open>parseInt(arg, 10)\<close> of ECMAScript: leading white space is skipped, one sign is
  read, then the longest run of decimal digits; no digit at all gives \<^verbatim>\<open>NaN\<close>,
  here \<open>None\<close>. The white space characters are listed in their UTF-8 encoding.
\<close>

definition StrWhiteSpaceChar :: "string list" where
  "StrWhiteSpaceChar =
     [[CHR 0x09], [CHR 0x0A], [CHR 0x0B], [CHR 0x0C], [CHR 0x0D], [CHR 0x20],
      [CHR 0xC2, CHR 0xA0], [CHR 0xE1, CHR 0x9A, CHR 0x80],
      [CHR 0xE2, CHR 0x80, CHR 0x80], [CHR 0xE2, CHR 0x80, CHR 0x81],
      [CHR 0xE2, CHR 0x80, CHR 0x82], [CHR 0xE2, CHR 0x80, CHR 0x83],
      [CHR 0xE2, CHR 0x80, CHR 0x84], [CHR 0xE2, CHR 0x80, CHR 0x85],
      [CHR 0xE2, CHR 0x80, CHR 0x86], [CHR 0xE2, CHR 0x80, CHR 0x87],
      [CHR 0xE2, CHR 0x80, CHR 0x88], [CHR 0xE2, CHR 0x80, CHR 0x89],
      [CHR 0xE2, CHR 0x80, CHR 0x8A], [CHR 0xE2, CHR 0x80, CHR 0xA8],
      [CHR 0xE2, CHR 0x80, CHR 0xA9], [CHR 0xE2, CHR 0x80, CHR 0xAF],
      [CHR 0xE2, CHR 0x81, CHR 0x9F], [CHR 0xE3, CHR 0x80, CHR 0x80],
      [CHR 0xEF, CHR 0xBB, CHR 0xBF]]"

text \<open>The number of bytes of the white space character a string starts with, or 0.\<close>

definition wsLen :: "string \<Rightarrow> nat" where
  "wsLen s = (case find (\<lambda>w. take (length w) s = w) StrWhiteSpaceChar of
                None \<Rightarrow> 0 | Some w \<Rightarrow> length w)"

fun trimStart :: "string \<Rightarrow> string" where
  "trimStart [] = []"
| "trimStart (c # cs) =
     (if wsLen (c # cs) = 0 then c # cs else trimStart (drop (wsLen (c # cs) - 1) cs))"

definition isDigit :: "char \<Rightarrow> bool" where
  "isDigit c = (c \<in> set ''0123456789'')"

definition digitVal :: "char \<Rightarrow> int" where
  "digitVal c = of_char c - 48"

definition digitsVal :: "string \<Rightarrow> int" where
  "digitsVal ds = foldl (\<lambda>acc c. 10 * acc + digitVal c) 0 ds"

definition parseInt :: "string \<Rightarrow> int option" where
  "parseInt s =
     (let S = trimStart s;
          sign = (if take 1 S = ''-'' then - 1 else 1);
          S' = (if take 1 S = ''-'' \<or> take 1 S = ''+'' then drop 1 S else S);
          Z = takeWhile isDigit S'
      in if Z = [] then None else Some (sign * digitsVal Z))"

text \<open>
  \<^verbatim>\<open>ToString\<close>, applied by JavaScript when an operand is used as a property name
  or handed to \<^verbatim>\<open>parseInt\<close>: an integer prints in decimal.
\<close>

fun showNat :: "nat \<Rightarrow> string" where
  "showNat n = (if n < 10 then [''0123456789'' ! n]
                else showNat (n div 10) @ [''0123456789'' ! (n mod 10)])"

declare showNat.simps [simp del]

fun ToString :: "arg \<Rightarrow> string" where
  "ToString (Num n) = (if n < 0 then CHR ''-'' # showNat (nat (- n)) else showNat (nat n))"
| "ToString (Str s) = s"
| "ToString Undefined = ''undefined''"

text \<open>
  A register snapshot. Section 3 of the specification and every level of the repository
  give each snapshot a register \<^verbatim>\<open>T\<close>, so it is a field; the other registers are
  a map from their names. Names that collide with members of
  \<^verbatim>\<open>Object.prototype\<close> (\<^verbatim>\<open>hasOwnProperty\<close>, \<^verbatim>\<open>__proto__\<close>) are not
  register names.
\<close>

record snapshot =
  T :: int
  others :: "string \<rightharpoonup> int"

text \<open>\<^verbatim>\<open>regs[name]\<close>, with \<open>None\<close> for \<^verbatim>\<open>undefined\<close>.\<close>

definition lookupReg :: "snapshot \<Rightarrow> string \<Rightarrow> int option" where
  "lookupReg regs name = (if name = ''T'' then Some (T regs) else others regs name)"


text \<open>\<^verbatim>\<open>regs[name] = v\<close> on a fresh copy.\<close>

definition assignReg :: "snapshot \<Rightarrow> string \<Rightarrow> int \<Rightarrow> snapshot" where
  "assignReg regs name v =
     (if name = ''T'' then regs\<lparr>T := v\<rparr> else regs\<lparr>others := (others regs)(name \<mapsto> v)\<rparr>)"

definition getValue :: "arg \<Rightarrow> snapshot \<Rightarrow> int" where
  "getValue arg regs =
     (case arg of
        Num n \<Rightarrow> n
      | _ \<Rightarrow> (case lookupReg regs (ToString arg) of
                Some v \<Rightarrow> v
              | None \<Rightarrow> (case parseInt (ToString arg) of None \<Rightarrow> 0 | Some num \<Rightarrow> num)))"

section \<open>Interpreter of the sparse-line-map version\<close>

datatype status = Waiting | Running | Won | Lost

text \<open>
  The component state that \<^verbatim>\<open>step\<close> reads and writes. The player's input text and
  the tooltip are presentation only and left out.
\<close>

record session =
  registers :: snapshot
  pc :: int
  history :: "int \<rightharpoonup> snapshot"
  gameStatus :: status
  isRunning :: bool
  program :: store

text \<open>The operator \<^verbatim>\<open>"\<noteq>"\<close> of CJUMP, U+2260 in UTF-8.\<close>

definition neqSign :: string where
  "neqSign = [CHR 0xE2, CHR 0x89, CHR 0xA0]"

text \<open>The inner \<^verbatim>\<open>switch (operator)\<close> of CJUMP; an unknown operator leaves it false.\<close>

definition condition :: "arg \<Rightarrow> int \<Rightarrow> int \<Rightarrow> bool" where
  "condition operator leftValue rightValue =
     (if operator = Str ''<'' then leftValue < rightValue
      else if operator = Str ''>'' then leftValue > rightValue
      else if operator = Str ''='' then leftValue = rightValue
      else if operator = Str neqSign then leftValue \<noteq> rightValue
      else False)"

text \<open>
  The three state updates that end \<^verbatim>\<open>step\<close>: the snapshot is stored in the history
  under its own \<^verbatim>\<open>T\<close>, and becomes the current one together with the new counter.
\<close>

definition commit :: "session \<Rightarrow> snapshot \<Rightarrow> int \<Rightarrow> session" where
  "commit s newRegisters newPC =
     s\<lparr>history := (history s)(T newRegisters \<mapsto> newRegisters),
       registers := newRegisters, pc := newPC\<rparr>"

text \<open>
  The body of \<^verbatim>\<open>step\<close> once the instruction is fetched. COPY is the only opcode
  that replaces the program; DEFUSE and EXPLODE set the status and stop the automatic run.
\<close>

definition execute :: "instr \<Rightarrow> session \<Rightarrow> session" where
  "execute instr s =
     (let newT = T (registers s) + 1;
          newRegisters = (registers s)\<lparr>T := newT\<rparr>;
          newPC = (if op instr \<in> set [''DEFUSE'', ''EXPLODE''] then pc s else pc s + 1);
          a = arg_at (args instr)
      in
      if op instr = ''ADD'' then
        (let val1 = getValue (a 0) newRegisters;
             val2 = getValue (a 1) newRegisters;
             dest = a 2
         in commit s (assignReg newRegisters (ToString dest) (val1 + val2)) newPC)
      else if op instr = ''JUMP'' then
        commit s newRegisters (getValue (a 0) newRegisters)
      else if op instr = ''CJUMP'' then
        (let leftValue = getValue (a 0) newRegisters;
             operator = a 1;
             rightValue = getValue (a 2) newRegisters;
             target = getValue (a 3) newRegisters
         in commit s newRegisters (if condition operator leftValue rightValue then target else newPC))
      else if op instr = ''COPY'' then
        (if length (args instr) = 2 then
           (let source = getValue (a 0) newRegisters;
                target = getValue (a 1) newRegisters;
                copyInstr = fetch (program s) source;
                newProgram = insertLine (program s) target copyInstr
            in commit (s\<lparr>program := newProgram\<rparr>) newRegisters
                 (if pc s \<ge> target then newPC + 1 else newPC))
         else
           (let source = getValue (a 0) newRegisters;
                target = pc s + 1;
                copyInstr = fetch (program s) source;
                newProgram = insertLine (program s) target copyInstr
            in commit (s\<lparr>program := newProgram\<rparr>) newRegisters newPC))
      else if op instr = ''EMPTY'' then
        commit s newRegisters newPC
      else if op instr = ''TTRAVEL'' then
        (let travelTime = T newRegisters
         in commit s (case history s travelTime of Some r \<Rightarrow> r | None \<Rightarrow> newRegisters) newPC)
      else if op instr = ''DEFUSE'' then
        commit (s\<lparr>gameStatus := Won, isRunning := False\<rparr>) newRegisters newPC
      else if op instr = ''EXPLODE'' then
        commit (s\<lparr>gameStatus := Lost, isRunning := False\<rparr>) newRegisters newPC
      else commit s newRegisters newPC)"

definition step :: "session \<Rightarrow> session" where
  "step s = execute (fetch (program s) (pc s)) s"

text \<open>\<^verbatim>\<open>manualStep\<close>: the handler of the Step button.\<close>

definition manualStep :: "session \<Rightarrow> session" where
  "manualStep s =
     step (s\<lparr>isRunning := False,
              gameStatus := (if gameStatus s = Waiting then Running else gameStatus s)\<rparr>)"

text \<open>
  The two places that call into \<^verbatim>\<open>step\<close>, each behind its guard. The Step button
  carries \<^verbatim>\<open>disabled={gameStatus === "won" || gameStatus === "lost"}\<close>, so its handler
  does not run on a finished game. The effect for automatic stepping returns at once
  unless \<^verbatim>\<open>isRunning\<close> holds and the status is \<^verbatim>\<open>"running"\<close>; otherwise its timer
  calls \<^verbatim>\<open>step\<close>. The Run button is enabled only while waiting.
\<close>

definition stepButton :: "session \<Rightarrow> session" where
  "stepButton s = (if gameStatus s = Won \<or> gameStatus s = Lost then s else manualStep s)"

definition autoStep :: "session \<Rightarrow> session" where
  "autoStep s = (if \<not> isRunning s \<or> gameStatus s \<noteq> Running then s else step s)"

definition runButton :: "session \<Rightarrow> session" where
  "runButton s =
     (if gameStatus s \<noteq> Waiting then s else s\<lparr>gameStatus := Running, isRunning := True\<rparr>)"

section \<open>Levels and reset\<close>

text \<open>
  A level gives its program as an array or as an object keyed by line number, and the
  initial registers. Name and description are presentation only.
\<close>

datatype level_program = ProgramList "instr list" | ProgramDict store

record level =
  level_program :: level_program
  initialRegisters :: snapshot

text \<open>
  \<^verbatim>\<open>convertProgram\<close>: an array is numbered from 1 by its \<^verbatim>\<open>forEach\<close>; the keys
  of an object are already line numbers.
\<close>

definition convertProgram :: "level_program \<Rightarrow> store" where
  "convertProgram prog =
     (case prog of
        ProgramList is \<Rightarrow>
          fold (\<lambda>(index, instr) newProg. fmupd (int index + 1) instr newProg)
            (enumerate 0 is) fmempty
      | ProgramDict d \<Rightarrow> d)"

text \<open>
  \<^verbatim>\<open>resetGame\<close>; the argument is the integer that \<^verbatim>\<open>parseInt(newA, 10)\<close> read
  from the player's input.
\<close>

definition resetGame :: "level \<Rightarrow> int \<Rightarrow> session" where
  "resetGame lvl initialA =
     (let initRegs = assignReg (initialRegisters lvl) ''A'' initialA
      in \<lparr>registers = initRegs, pc = 1, history = [0 \<mapsto> initRegs],
          gameStatus = Waiting, isRunning = False,
          program = convertProgram (level_program lvl)\<rparr>)"

text \<open>The first and the last level of the level list.\<close>

definition tutorial :: level where
  "tutorial =
     \<lparr>level_program = ProgramList
        [\<lparr>op = ''CJUMP'', args = [Str ''A'', Str ''='', Num 5, Num 3]\<rparr>,
         \<lparr>op = ''EXPLODE'', args = []\<rparr>,
         \<lparr>op = ''DEFUSE'', args = []\<rparr>],
      initialRegisters = \<lparr>T = 0, others = [''A'' \<mapsto> 0]\<rparr>\<rparr>"


text \<open>
  The sessions a game can reach: the one \<^verbatim>\<open>resetGame\<close> builds, and from there any
  call of \<^verbatim>\<open>step\<close>, directly or through \<^verbatim>\<open>manualStep\<close>.
\<close>

inductive reachable :: "level \<Rightarrow> session \<Rightarrow> bool" for lvl :: level where
  fresh: "reachable lvl (resetGame lvl initialA)"
| stepped: "reachable lvl s \<Longrightarrow> reachable lvl (step s)"
| manual: "reachable lvl s \<Longrightarrow> reachable lvl (manualStep s)"

section \<open>Interpreter of the fixed-length-array version\<close>

text \<open>
  \<^verbatim>\<open>src/BombGame.js\<close> keeps no program in its state: it runs
  \<^verbatim>\<open>level.program\<close>, an array indexed from 0.
\<close>

record bg_session =
  bg_registers :: snapshot
  bg_pc :: int
  bg_history :: "int \<rightharpoonup> snapshot"
  bg_gameStatus :: status
  bg_isRunning :: bool

definition bg_commit :: "bg_session \<Rightarrow> snapshot \<Rightarrow> int \<Rightarrow> bg_session" where
  "bg_commit s newRegisters newPC =
     s\<lparr>bg_history := (bg_history s)(T newRegisters \<mapsto> newRegisters),
       bg_registers := newRegisters, bg_pc := newPC\<rparr>"

text \<open>
  The branches compare \<^verbatim>\<open>newRegisters[reg]\<close>, which is \<^verbatim>\<open>undefined\<close> for a
  name that is no register: then only \<^verbatim>\<open>!==\<close> holds.
\<close>

definition branchTaken :: "string \<Rightarrow> int option \<Rightarrow> int \<Rightarrow> bool" where
  "branchTaken opc regVal cmpVal =
     (if opc = ''BEQ'' then regVal = Some cmpVal
      else if opc = ''BNE'' then regVal \<noteq> Some cmpVal
      else if opc = ''BGT'' then (case regVal of Some v \<Rightarrow> v > cmpVal | None \<Rightarrow> False)
      else if opc = ''BLT'' then (case regVal of Some v \<Rightarrow> v < cmpVal | None \<Rightarrow> False)
      else False)"

text \<open>
  \<^verbatim>\<open>step\<close> of \<^verbatim>\<open>src/BombGame.js\<close>. Jump targets are stored in the counter as
  they are written, without \<^verbatim>\<open>getValue\<close>; the result is \<open>None\<close> when the value
  stored is not a number, which leaves the integers of this model.
\<close>

definition BombGame_step :: "instr list \<Rightarrow> bg_session \<Rightarrow> bg_session option" where
  "BombGame_step prog s =
     (if bg_pc s < 0 \<or> bg_pc s \<ge> int (length prog) then
        Some (s\<lparr>bg_gameStatus := Lost, bg_isRunning := False\<rparr>)
      else
        (let instr = prog ! nat (bg_pc s);
             newT = T (bg_registers s) + 1;
             newRegisters = (bg_registers s)\<lparr>T := newT\<rparr>;
             newPC = bg_pc s + 1;
             a = arg_at (args instr)
         in
         if op instr = ''ADD'' then
           (let val1 = getValue (a 0) newRegisters;
                val2 = getValue (a 1) newRegisters;
                dest = a 2
            in Some (bg_commit s (assignReg newRegisters (ToString dest) (val1 + val2)) newPC))
         else if op instr = ''JMP'' then
           (case a 0 of Num n \<Rightarrow> Some (bg_commit s newRegisters n) | _ \<Rightarrow> None)
         else if op instr \<in> set [''BEQ'', ''BNE'', ''BGT'', ''BLT''] then
           (let reg = a 0;
                cmpVal = getValue (a 1) newRegisters;
                target = a 2
            in if branchTaken (op instr) (lookupReg newRegisters (ToString reg)) cmpVal then
                 (case target of Num n \<Rightarrow> Some (bg_commit s newRegisters n) | _ \<Rightarrow> None)
               else Some (bg_commit s newRegisters newPC))
         else if op instr = ''TTRAVEL'' then
           (let travelTime = T newRegisters
            in Some (bg_commit s
                 (case bg_history s travelTime of Some r \<Rightarrow> r | None \<Rightarrow> newRegisters) newPC))
         else if op instr = ''DEFUSE'' then
           Some (bg_commit (s\<lparr>bg_gameStatus := Won, bg_isRunning := False\<rparr>) newRegisters newPC)
         else if op instr = ''EXPLODE'' then
           Some (bg_commit (s\<lparr>bg_gameStatus := Lost, bg_isRunning := False\<rparr>) newRegisters newPC)
         else Some (bg_commit s newRegisters newPC)))"

section \<open>Concrete programs and sessions\<close>

text \<open>The instructions and the store of the COPY scenario of section 8 of the specification.\<close>

definition ADD_ABC :: instr where
  "ADD_ABC = \<lparr>op = ''ADD'', args = [Str ''A'', Str ''B'', Str ''C'']\<rparr>"

definition COPY_1_3 :: instr where
  "COPY_1_3 = \<lparr>op = ''COPY'', args = [Num 1, Num 3]\<rparr>"

definition copy_session :: session where
  "copy_session =
     \<lparr>registers = \<lparr>T = 0, others = [''A'' \<mapsto> 0]\<rparr>, pc = 1,
      history = [0 \<mapsto> \<lparr>T = 0, others = [''A'' \<mapsto> 0]\<rparr>],
      gameStatus = Running, isRunning = False, program = fmupd 1 ADD_ABC fmempty\<rparr>"

text \<open>A store with a hole between its two lines, for the viewport.\<close>

definition sparse_store :: store where
  "sparse_store =
     fmupd 1 \<lparr>op = ''DEFUSE'', args = []\<rparr> (fmupd 5 \<lparr>op = ''EXPLODE'', args = []\<rparr> fmempty)"

text \<open>
  No level of the repository contains TTRAVEL. This one writes \<^verbatim>\<open>B\<close> twice, sets
  \<^verbatim>\<open>T\<close> back to 0 with an ADD, and then travels.
\<close>

definition rewind :: level where
  "rewind =
     \<lparr>level_program = ProgramList
        [\<lparr>op = ''ADD'', args = [Num 1, Num 0, Str ''B'']\<rparr>,
         \<lparr>op = ''ADD'', args = [Num 7, Num 0, Str ''B'']\<rparr>,
         \<lparr>op = ''ADD'', args = [Num 0, Num 0, Str ''T'']\<rparr>,
         \<lparr>op = ''TTRAVEL'', args = []\<rparr>],
      initialRegisters = \<lparr>T = 0, others = [''A'' \<mapsto> 0]\<rparr>\<rparr>"

text \<open>The session of \<open>rewind\<close> after two and after three steps.\<close>

definition rewind2 :: session where
  "rewind2 = step (step (resetGame rewind 0))"

definition rewind3 :: session where
  "rewind3 = step rewind2"


text \<open>
  The first level played with \<^verbatim>\<open>A = 5\<close> and with \<^verbatim>\<open>A = 0\<close>, after two clicks
  on Step: the first has run DEFUSE, the second EXPLODE.
\<close>

definition won_session :: session where
  "won_session = manualStep (manualStep (resetGame tutorial 5))"

definition lost_session :: session where
  "lost_session = manualStep (manualStep (resetGame tutorial 0))"

text \<open>The first level with the counter moved to line 7, where the store has no entry.\<close>

definition off_program_session :: session where
  "off_program_session = (resetGame tutorial 0)\<lparr>pc := 7\<rparr>"

text \<open>The level of \<^verbatim>\<open>src/BombGame.js\<close>, and sessions on it.\<close>

definition doubling_program :: "instr list" where
  "doubling_program =
     [\<lparr>op = ''BLT'', args = [Str ''A'', Num 10, Num 7]\<rparr>,
      \<lparr>op = ''BGT'', args = [Str ''A'', Num 50, Num 7]\<rparr>,
      \<lparr>op = ''BGT'', args = [Str ''T'', Num 40, Num 7]\<rparr>,
      \<lparr>op = ''BEQ'', args = [Str ''B'', Str ''A'', Num 6]\<rparr>,
      \<lparr>op = ''ADD'', args = [Str ''B'', Str ''B'', Str ''B'']\<rparr>,
      \<lparr>op = ''JMP'', args = [Num 2]\<rparr>,
      \<lparr>op = ''DEFUSE'', args = []\<rparr>,
      \<lparr>op = ''EXPLODE'', args = []\<rparr>]"

definition bg_at :: "int \<Rightarrow> bg_session" where
  "bg_at line =
     \<lparr>bg_registers = \<lparr>T = 0, others = [''A'' \<mapsto> 16, ''B'' \<mapsto> 1]\<rparr>, bg_pc = line,
      bg_history = [0 \<mapsto> \<lparr>T = 0, others = [''A'' \<mapsto> 16, ''B'' \<mapsto> 1]\<rparr>,
                    1 \<mapsto> \<lparr>T = 1, others = [''A'' \<mapsto> 16, ''B'' \<mapsto> 8]\<rparr>],
      bg_gameStatus = Running, bg_isRunning = True\<rparr>"

section \<open>Line insertion shifts the lines at and above the target\<close>



lemma set_sortedKeys: "set (sortedKeys prog) = fmdom' prog"
  by (simp add: sortedKeys_def)






section \<open>One step of the interpreters\<close>

lemma commit_fields:
  "pc (commit s r p) = p" "registers (commit s r p) = r"
  "program (commit s r p) = program s" "gameStatus (commit s r p) = gameStatus s"
  "isRunning (commit s r p) = isRunning s"
  "history (commit s r p) = (history s)(T r \<mapsto> r)"
  by (simp_all add: commit_def)


lemma getValue_Num: "getValue (Num n) regs = n"
  by (simp add: getValue_def)

lemma step_status:
  "gameStatus (step s) =
     (if op (fetch (program s) (pc s)) = ''DEFUSE'' then Won
      else if op (fetch (program s) (pc s)) = ''EXPLODE'' then Lost
      else gameStatus s)"
  by (auto simp: step_def execute_def Let_def commit_fields)

lemma step_terminal_holds:
  "op (fetch (program s) (pc s)) \<in> {''DEFUSE'', ''EXPLODE''} \<Longrightarrow>
     pc (step s) = pc s \<and> program (step s) = program s"
  by (auto simp: step_def execute_def Let_def commit_fields)



text \<open>The concrete sessions, evaluated.\<close>

lemma tutorial_program:
  "convertProgram (level_program tutorial) =
     fmupd 3 \<lparr>op = ''DEFUSE'', args = []\<rparr>
       (fmupd 2 \<lparr>op = ''EXPLODE'', args = []\<rparr>
         (fmupd 1 \<lparr>op = ''CJUMP'', args = [Str ''A'', Str ''='', Num 5, Num 3]\<rparr> fmempty))"
  by (simp add: tutorial_def convertProgram_def enumerate_eq_zip upt_rec)

lemma rewind_program:
  "convertProgram (level_program rewind) =
     fmupd 4 \<lparr>op = ''TTRAVEL'', args = []\<rparr>
       (fmupd 3 \<lparr>op = ''ADD'', args = [Num 0, Num 0, Str ''T'']\<rparr>
         (fmupd 2 \<lparr>op = ''ADD'', args = [Num 7, Num 0, Str ''B'']\<rparr>
           (fmupd 1 \<lparr>op = ''ADD'', args = [Num 1, Num 0, Str ''B'']\<rparr> fmempty)))"
  by (simp add: rewind_def convertProgram_def enumerate_eq_zip upt_rec)

lemma rewind_fresh:
  "resetGame rewind 0 =
     \<lparr>registers = \<lparr>T = 0, others = [''A'' \<mapsto> 0]\<rparr>, pc = 1,
      history = [0 \<mapsto> \<lparr>T = 0, others = [''A'' \<mapsto> 0]\<rparr>],
      gameStatus = Waiting, isRunning = False,
      program = convertProgram (level_program rewind)\<rparr>"
  by (simp add: resetGame_def Let_def assignReg_def) (simp add: rewind_def)

lemma rewind2_eval:
  "rewind2 =
     \<lparr>registers = \<lparr>T = 2, others = [''A'' \<mapsto> 0, ''B'' \<mapsto> 7]\<rparr>, pc = 3,
      history = [0 \<mapsto> \<lparr>T = 0, others = [''A'' \<mapsto> 0]\<rparr>,
                 1 \<mapsto> \<lparr>T = 1, others = [''A'' \<mapsto> 0, ''B'' \<mapsto> 1]\<rparr>,
                 2 \<mapsto> \<lparr>T = 2, others = [''A'' \<mapsto> 0, ''B'' \<mapsto> 7]\<rparr>],
      gameStatus = Waiting, isRunning = False,
      program = convertProgram (level_program rewind)\<rparr>"
  unfolding rewind2_def rewind_fresh
  by (simp add: rewind_program step_def fetch_def execute_def Let_def commit_def arg_at_def
      getValue_Num assignReg_def)

lemma rewind3_eval:
  "rewind3 =
     \<lparr>registers = \<lparr>T = 0, others = [''A'' \<mapsto> 0, ''B'' \<mapsto> 7]\<rparr>, pc = 4,
      history = [0 \<mapsto> \<lparr>T = 0, others = [''A'' \<mapsto> 0, ''B'' \<mapsto> 7]\<rparr>,
                 1 \<mapsto> \<lparr>T = 1, others = [''A'' \<mapsto> 0, ''B'' \<mapsto> 1]\<rparr>,
                 2 \<mapsto> \<lparr>T = 2, others = [''A'' \<mapsto> 0, ''B'' \<mapsto> 7]\<rparr>],
      gameStatus = Waiting, isRunning = False,
      program = convertProgram (level_program rewind)\<rparr>"
  unfolding rewind3_def rewind2_eval
  by (simp add: rewind_program step_def fetch_def execute_def Let_def commit_def arg_at_def
      getValue_Num assignReg_def fun_upd_twist)

lemma rewind3_fetch: "fetch (program rewind3) (pc rewind3) = \<lparr>op = ''TTRAVEL'', args = []\<rparr>"
  by (simp add: rewind3_eval rewind_program fetch_def)



lemma won_session_eval:
  "won_session =
     \<lparr>registers = \<lparr>T = 2, others = [''A'' \<mapsto> 5]\<rparr>, pc = 3,
      history = [0 \<mapsto> \<lparr>T = 0, others = [''A'' \<mapsto> 5]\<rparr>,
                 1 \<mapsto> \<lparr>T = 1, others = [''A'' \<mapsto> 5]\<rparr>,
                 2 \<mapsto> \<lparr>T = 2, others = [''A'' \<mapsto> 5]\<rparr>],
      gameStatus = Won, isRunning = False,
      program = convertProgram (level_program tutorial)\<rparr>"
  unfolding won_session_def
  by (simp add: resetGame_def Let_def tutorial_program)
     (simp add: tutorial_def manualStep_def step_def fetch_def execute_def Let_def commit_def
        arg_at_def getValue_def lookupReg_def assignReg_def condition_def)

lemma lost_session_eval:
  "lost_session =
     \<lparr>registers = \<lparr>T = 2, others = [''A'' \<mapsto> 0]\<rparr>, pc = 2,
      history = [0 \<mapsto> \<lparr>T = 0, others = [''A'' \<mapsto> 0]\<rparr>,
                 1 \<mapsto> \<lparr>T = 1, others = [''A'' \<mapsto> 0]\<rparr>,
                 2 \<mapsto> \<lparr>T = 2, others = [''A'' \<mapsto> 0]\<rparr>],
      gameStatus = Lost, isRunning = False,
      program = convertProgram (level_program tutorial)\<rparr>"
  unfolding lost_session_def
  by (simp add: resetGame_def Let_def tutorial_program)
     (simp add: tutorial_def manualStep_def step_def fetch_def execute_def Let_def commit_def
        arg_at_def getValue_def lookupReg_def assignReg_def condition_def)

lemma won_session_reachable: "reachable tutorial won_session"
  unfolding won_session_def by (intro reachable.intros)

lemma won_session_step:
  "gameStatus (step won_session) = Won" "pc (step won_session) = 3"
  "T (registers (step won_session)) = 3"
  "history (step won_session) 3 = Some \<lparr>T = 3, others = [''A'' \<mapsto> 5]\<rparr>"
  "history won_session 3 = None"
  by (simp_all add: won_session_eval tutorial_program step_def fetch_def execute_def Let_def
      commit_def)

section \<open>The COPY scenario\<close>

lemma copy_store:
  "insertLine (fmupd 1 ADD_ABC fmempty) 3 ADD_ABC = fmupd 3 ADD_ABC (fmupd 1 ADD_ABC fmempty)"
  by (simp add: insertLine_def insertLine_body_def sortedKeys_def)

text \<open>
  Claim C2, as stated: executing COPY (1, 3) at \<open>pc = 1\<close> against the store
  \<open>{1: ADD A,B,C}\<close> leaves the counter at 3. It does not: the counter is 2.
\<close>

theorem copy_scenario_pc_not_3:
  "\<not> (fmlookup (program (execute COPY_1_3 copy_session)) 1 = Some ADD_ABC \<and>
      fmlookup (program (execute COPY_1_3 copy_session)) 3 = Some ADD_ABC \<and>
      fmlookup (program (execute COPY_1_3 copy_session)) 2 = None \<and>
      pc (execute COPY_1_3 copy_session) = 3)"
  by (simp add: execute_def COPY_1_3_def copy_session_def commit_def arg_at_def getValue_Num
      Let_def)

text \<open>
  Claim C2, amended. \<^verbatim>\<open>step\<close> executes the instruction it fetches at \<open>pc\<close>; the
  scenario names the instruction, COPY (1, 3), apart from the store, whose line 1 is
  ADD A,B,C, so it is stated on the body of \<^verbatim>\<open>step\<close> with that instruction.
  Whatever the registers, history and status: the resulting store has exactly the lines
  1 and 3, both the original ADD A,B,C, line 2 is absent, and the counter becomes 2.
  The target 3 is above \<open>pc = 1\<close>, so the extra increment does not apply.
\<close>

theorem copy_scenario:
  "program (execute COPY_1_3
      \<lparr>registers = regs, pc = 1, history = h, gameStatus = st, isRunning = run,
       program = fmupd 1 ADD_ABC fmempty\<rparr>) = fmupd 3 ADD_ABC (fmupd 1 ADD_ABC fmempty) \<and>
   fmlookup (program (execute COPY_1_3
      \<lparr>registers = regs, pc = 1, history = h, gameStatus = st, isRunning = run,
       program = fmupd 1 ADD_ABC fmempty\<rparr>)) 2 = None \<and>
   fmdom' (program (execute COPY_1_3
      \<lparr>registers = regs, pc = 1, history = h, gameStatus = st, isRunning = run,
       program = fmupd 1 ADD_ABC fmempty\<rparr>)) = {1, 3} \<and>
   pc (execute COPY_1_3
      \<lparr>registers = regs, pc = 1, history = h, gameStatus = st, isRunning = run,
       program = fmupd 1 ADD_ABC fmempty\<rparr>) = 2"
proof -
  let ?s = "\<lparr>registers = regs, pc = 1, history = h, gameStatus = st, isRunning = run,
       program = fmupd 1 ADD_ABC fmempty\<rparr>"
  have prog: "program (execute COPY_1_3 ?s) = insertLine (fmupd 1 ADD_ABC fmempty) 3 ADD_ABC"
    by (simp add: execute_def COPY_1_3_def commit_def arg_at_def getValue_Num fetch_def Let_def)
  have counter: "pc (execute COPY_1_3 ?s) = 2"
    by (simp add: execute_def COPY_1_3_def commit_def arg_at_def getValue_Num Let_def)
  from prog counter show ?thesis
    by (auto simp: copy_store)
qed

text \<open>
  When line 1 itself holds the COPY, \<^verbatim>\<open>step\<close> copies that instruction to line 3; the
  counter is 2 again.
\<close>

lemma step_copy_of_itself:
  "program (step (copy_session\<lparr>program := fmupd 1 COPY_1_3 fmempty\<rparr>)) =
     fmupd 3 COPY_1_3 (fmupd 1 COPY_1_3 fmempty) \<and>
   pc (step (copy_session\<lparr>program := fmupd 1 COPY_1_3 fmempty\<rparr>)) = 2"
  by (simp add: step_def fetch_def copy_session_def)
     (simp add: execute_def COPY_1_3_def commit_def arg_at_def getValue_Num fetch_def Let_def
        insertLine_def insertLine_body_def sortedKeys_def)

section \<open>The program counter after a step\<close>





section \<open>Terminal status\<close>

lemma reachable_terminal_instr:
  "reachable lvl s \<Longrightarrow>
     (gameStatus s = Won \<longrightarrow> op (fetch (program s) (pc s)) = ''DEFUSE'') \<and>
     (gameStatus s = Lost \<longrightarrow> op (fetch (program s) (pc s)) = ''EXPLODE'')"
proof (induction rule: reachable.induct)
  case (fresh initialA)
  then show ?case by (simp add: resetGame_def Let_def)
next
  case (stepped s)
  then show ?case
    using step_terminal_holds [of s] by (auto simp: step_status split: if_splits)
next
  case (manual s)
  let ?s = "s\<lparr>isRunning := False,
              gameStatus := (if gameStatus s = Waiting then Running else gameStatus s)\<rparr>"
  have f: "fetch (program ?s) (pc ?s) = fetch (program s) (pc s)" by simp
  show ?case
    using manual.IH step_terminal_holds [of ?s] f
    by (auto simp: manualStep_def step_status split: if_splits)
qed

text \<open>
  Claim C4, as stated: once the status is won or lost, every further call of
  \<^verbatim>\<open>step\<close> leaves snapshot, counter, store and history unchanged. Neither
  \<^verbatim>\<open>step\<close> nor \<^verbatim>\<open>manualStep\<close> looks at the status: called on the won session of
  the first level they run DEFUSE once more, \<^verbatim>\<open>T\<close> goes from 2 to 3 and the history
  gets an entry at 3.
\<close>

theorem step_on_won_session_changes_it:
  "gameStatus won_session = Won \<and>
   T (registers (step won_session)) \<noteq> T (registers won_session) \<and>
   history (step won_session) \<noteq> history won_session \<and>
   T (registers (manualStep won_session)) \<noteq> T (registers won_session)"
proof -
  have "history (step won_session) 3 \<noteq> history won_session 3"
    by (simp add: won_session_step)
  then have "history (step won_session) \<noteq> history won_session"
    by metis
  moreover have "manualStep won_session = step won_session"
    by (simp add: manualStep_def won_session_eval)
  ultimately show ?thesis
    by (simp add: won_session_step) (simp add: won_session_eval)
qed

text \<open>
  Claim C4, amended. A step that executes DEFUSE sets the status to won, one that
  executes EXPLODE sets it to lost. The guards are at the callers: on a won or lost
  session the Step button, the automatic stepping and the Run button leave the whole
  session unchanged. \<^verbatim>\<open>step\<close> itself has no such check: on a won or lost session
  reached from a fresh one it executes the same terminal instruction again, so status,
  counter and store stay as they are, while \<^verbatim>\<open>T\<close> is incremented and the new
  snapshot is entered in the history.
\<close>

theorem terminal_status:
  "(op (fetch (program s) (pc s)) = ''DEFUSE'' \<longrightarrow> gameStatus (step s) = Won) \<and>
   (op (fetch (program s) (pc s)) = ''EXPLODE'' \<longrightarrow> gameStatus (step s) = Lost) \<and>
   (gameStatus s \<in> {Won, Lost} \<longrightarrow> stepButton s = s \<and> autoStep s = s \<and> runButton s = s) \<and>
   (reachable lvl s \<and> gameStatus s \<in> {Won, Lost} \<longrightarrow>
      gameStatus (step s) = gameStatus s \<and> pc (step s) = pc s \<and>
      program (step s) = program s \<and>
      T (registers (step s)) = T (registers s) + 1 \<and>
      history (step s) (T (registers s) + 1) = Some (registers (step s)))"
proof -
  have a: "op (fetch (program s) (pc s)) = ''DEFUSE'' \<longrightarrow> gameStatus (step s) = Won"
    by (simp add: step_status)
  have b: "op (fetch (program s) (pc s)) = ''EXPLODE'' \<longrightarrow> gameStatus (step s) = Lost"
    by (simp add: step_status)
  have c: "gameStatus s \<in> {Won, Lost} \<longrightarrow> stepButton s = s \<and> autoStep s = s \<and> runButton s = s"
    by (auto simp: stepButton_def autoStep_def runButton_def)
  have d: "gameStatus (step s) = gameStatus s \<and> pc (step s) = pc s \<and>
      program (step s) = program s \<and>
      T (registers (step s)) = T (registers s) + 1 \<and>
      history (step s) (T (registers s) + 1) = Some (registers (step s))"
    if r: "reachable lvl s" and t: "gameStatus s \<in> {Won, Lost}"
  proof -
    from reachable_terminal_instr [OF r] t
    have i: "op (fetch (program s) (pc s)) \<in> {''DEFUSE'', ''EXPLODE''}"
      and g: "gameStatus (step s) = gameStatus s"
      by (auto simp: step_status)
    from i have "T (registers (step s)) = T (registers s) + 1 \<and>
      history (step s) (T (registers s) + 1) = Some (registers (step s))"
      by (auto simp: step_def execute_def Let_def commit_fields)
    with g step_terminal_holds [OF i] show ?thesis by simp
  qed
  from a b c d show ?thesis by blast
qed

theorem terminal_status_witness:
  "gameStatus won_session = Won \<and> gameStatus lost_session = Lost \<and>
   reachable tutorial won_session \<and>
   stepButton won_session = won_session \<and> autoStep won_session = won_session \<and>
   runButton won_session = won_session \<and>
   gameStatus (step won_session) = Won \<and> pc (step won_session) = 3 \<and>
   program (step won_session) = program won_session \<and>
   T (registers (step won_session)) = 3 \<and>
   gameStatus (step ((resetGame tutorial 5)\<lparr>pc := 3\<rparr>)) = Won \<and>
   gameStatus (step ((resetGame tutorial 5)\<lparr>pc := 2\<rparr>)) = Lost"
proof -
  have f: "fetch (program (resetGame tutorial 5)) 3 = \<lparr>op = ''DEFUSE'', args = []\<rparr>"
    "fetch (program (resetGame tutorial 5)) 2 = \<lparr>op = ''EXPLODE'', args = []\<rparr>"
    "fetch (program won_session) 3 = \<lparr>op = ''DEFUSE'', args = []\<rparr>"
    by (simp_all add: resetGame_def Let_def tutorial_program fetch_def won_session_eval)
  have st: "gameStatus won_session = Won" "gameStatus lost_session = Lost"
    "T (registers won_session) = 2" "pc won_session = 3"
    by (simp_all add: won_session_eval lost_session_eval)
  show ?thesis
    using terminal_status [of won_session tutorial]
      terminal_status [of "(resetGame tutorial 5)\<lparr>pc := 3\<rparr>" tutorial]
      terminal_status [of "(resetGame tutorial 5)\<lparr>pc := 2\<rparr>" tutorial]
      won_session_reachable
    by (simp add: f st)
qed

section \<open>The time register\<close>





section \<open>Time travel\<close>

text \<open>A one-line program for the step of \<^verbatim>\<open>src/BombGame.js\<close> on TTRAVEL.\<close>

lemma bg_ttravel_step:
  "BombGame_step [\<lparr>op = ''TTRAVEL'', args = []\<rparr>] (bg_at 0) =
     Some ((bg_at 0)\<lparr>bg_registers := \<lparr>T = 1, others = [''A'' \<mapsto> 16, ''B'' \<mapsto> 8]\<rparr>, bg_pc := 1\<rparr>)"
  by (simp add: BombGame_step_def bg_at_def bg_commit_def Let_def)

text \<open>
  Claim C6. In both versions, a step that executes TTRAVEL returns the snapshot
  recorded in the history at the incremented time when there is one, and otherwise the
  input snapshot with only \<^verbatim>\<open>T\<close> incremented.
\<close>

theorem ttravel_restores:
  "(op (fetch (program s) (pc s)) = ''TTRAVEL'' \<longrightarrow>
      (\<forall>r. history s (T (registers s) + 1) = Some r \<longrightarrow> registers (step s) = r) \<and>
      (history s (T (registers s) + 1) = None \<longrightarrow>
         registers (step s) = (registers s)\<lparr>T := T (registers s) + 1\<rparr>)) \<and>
   (0 \<le> bg_pc b \<and> bg_pc b < int (length prog) \<and> op (prog ! nat (bg_pc b)) = ''TTRAVEL'' \<longrightarrow>
      (\<forall>r. bg_history b (T (bg_registers b) + 1) = Some r \<longrightarrow>
         map_option bg_registers (BombGame_step prog b) = Some r) \<and>
      (bg_history b (T (bg_registers b) + 1) = None \<longrightarrow>
         map_option bg_registers (BombGame_step prog b) =
           Some ((bg_registers b)\<lparr>T := T (bg_registers b) + 1\<rparr>)))"
proof -
  have sparse: "registers (step s) =
      (case history s (T (registers s) + 1) of
         Some r \<Rightarrow> r | None \<Rightarrow> (registers s)\<lparr>T := T (registers s) + 1\<rparr>)"
    if "op (fetch (program s) (pc s)) = ''TTRAVEL''"
    using that by (simp add: step_def execute_def Let_def commit_fields)
  have array: "map_option bg_registers (BombGame_step prog b) =
      Some (case bg_history b (T (bg_registers b) + 1) of
              Some r \<Rightarrow> r | None \<Rightarrow> (bg_registers b)\<lparr>T := T (bg_registers b) + 1\<rparr>)"
    if "0 \<le> bg_pc b" "bg_pc b < int (length prog)" "op (prog ! nat (bg_pc b)) = ''TTRAVEL''"
    using that by (simp add: BombGame_step_def bg_commit_def Let_def)
  from sparse array show ?thesis
    by (auto split: option.splits)
qed

theorem ttravel_restores_witness:
  "registers rewind3 = \<lparr>T = 0, others = [''A'' \<mapsto> 0, ''B'' \<mapsto> 7]\<rparr> \<and>
   history rewind3 1 = Some \<lparr>T = 1, others = [''A'' \<mapsto> 0, ''B'' \<mapsto> 1]\<rparr> \<and>
   registers (step rewind3) = \<lparr>T = 1, others = [''A'' \<mapsto> 0, ''B'' \<mapsto> 1]\<rparr> \<and>
   history (rewind3\<lparr>history := Map.empty\<rparr>) 1 = None \<and>
   registers (step (rewind3\<lparr>history := Map.empty\<rparr>)) =
     \<lparr>T = 1, others = [''A'' \<mapsto> 0, ''B'' \<mapsto> 7]\<rparr> \<and>
   map_option bg_registers (BombGame_step [\<lparr>op = ''TTRAVEL'', args = []\<rparr>] (bg_at 0)) =
     Some \<lparr>T = 1, others = [''A'' \<mapsto> 16, ''B'' \<mapsto> 8]\<rparr> \<and>
   map_option bg_registers
     (BombGame_step [\<lparr>op = ''TTRAVEL'', args = []\<rparr>] ((bg_at 0)\<lparr>bg_history := Map.empty\<rparr>)) =
     Some \<lparr>T = 1, others = [''A'' \<mapsto> 16, ''B'' \<mapsto> 1]\<rparr>"
proof -
  have f: "fetch (program rewind3) (pc rewind3) = \<lparr>op = ''TTRAVEL'', args = []\<rparr>"
    by (rule rewind3_fetch)
  have r: "registers rewind3 = \<lparr>T = 0, others = [''A'' \<mapsto> 0, ''B'' \<mapsto> 7]\<rparr>"
    "history rewind3 1 = Some \<lparr>T = 1, others = [''A'' \<mapsto> 0, ''B'' \<mapsto> 1]\<rparr>"
    by (simp_all add: rewind3_eval)
  have b: "bg_pc (bg_at 0) = 0"
    "bg_registers (bg_at 0) = \<lparr>T = 0, others = [''A'' \<mapsto> 16, ''B'' \<mapsto> 1]\<rparr>"
    "bg_history (bg_at 0) 1 = Some \<lparr>T = 1, others = [''A'' \<mapsto> 16, ''B'' \<mapsto> 8]\<rparr>"
    by (simp_all add: bg_at_def)
  show ?thesis
    using ttravel_restores [of rewind3 "bg_at 0" "[\<lparr>op = ''TTRAVEL'', args = []\<rparr>]"]
      ttravel_restores [of "rewind3\<lparr>history := Map.empty\<rparr>"
        "(bg_at 0)\<lparr>bg_history := Map.empty\<rparr>" "[\<lparr>op = ''TTRAVEL'', args = []\<rparr>]"]
    by (simp add: f r b)
qed

section \<open>A counter outside the program\<close>

text \<open>
  Claim C7. In the sparse-line-map version a step whose counter has no entry in the
  store fetches EMPTY and goes on: the counter advances by one, \<^verbatim>\<open>T\<close> is incremented
  and recorded, and store, status and run flag are untouched. In the fixed-length-array
  version a step whose counter is below 0 or at or beyond the length of the program sets
  the status to lost, stops the run and changes nothing else.
\<close>

theorem missing_line_is_EMPTY:
  "(fmlookup (program s) (pc s) = None \<longrightarrow>
      fetch (program s) (pc s) = EMPTY \<and>
      step s = s\<lparr>history :=
                   (history s)(T (registers s) + 1 \<mapsto> (registers s)\<lparr>T := T (registers s) + 1\<rparr>),
                 registers := (registers s)\<lparr>T := T (registers s) + 1\<rparr>,
                 pc := pc s + 1\<rparr>) \<and>
   (bg_pc b < 0 \<or> bg_pc b \<ge> int (length prog) \<longrightarrow>
      BombGame_step prog b = Some (b\<lparr>bg_gameStatus := Lost, bg_isRunning := False\<rparr>))"
proof -
  have "step s = s\<lparr>history :=
                   (history s)(T (registers s) + 1 \<mapsto> (registers s)\<lparr>T := T (registers s) + 1\<rparr>),
                 registers := (registers s)\<lparr>T := T (registers s) + 1\<rparr>,
                 pc := pc s + 1\<rparr>"
    if "fetch (program s) (pc s) = EMPTY"
    by (simp add: step_def that) (simp add: execute_def EMPTY_def Let_def commit_def)
  moreover have "fetch (program s) (pc s) = EMPTY" if "fmlookup (program s) (pc s) = None"
    using that by (simp add: fetch_def)
  moreover have "BombGame_step prog b = Some (b\<lparr>bg_gameStatus := Lost, bg_isRunning := False\<rparr>)"
    if "bg_pc b < 0 \<or> bg_pc b \<ge> int (length prog)"
    using that by (auto simp: BombGame_step_def)
  ultimately show ?thesis by blast
qed

theorem missing_line_is_EMPTY_witness:
  "fmlookup (program off_program_session) (pc off_program_session) = None \<and>
   pc (step off_program_session) = 8 \<and>
   T (registers (step off_program_session)) = 1 \<and>
   gameStatus (step off_program_session) = Waiting \<and>
   program (step off_program_session) = program off_program_session \<and>
   BombGame_step doubling_program (bg_at 8) =
     Some ((bg_at 8)\<lparr>bg_gameStatus := Lost, bg_isRunning := False\<rparr>) \<and>
   BombGame_step doubling_program (bg_at (- 1)) =
     Some ((bg_at (- 1))\<lparr>bg_gameStatus := Lost, bg_isRunning := False\<rparr>)"
proof -
  have o: "fmlookup (program off_program_session) (pc off_program_session) = None"
    "pc off_program_session = 7" "T (registers off_program_session) = 0"
    "gameStatus off_program_session = Waiting"
    "fmlookup (program off_program_session) 7 = None"
    by (simp_all add: off_program_session_def resetGame_def Let_def tutorial_program)
       (simp add: tutorial_def assignReg_def)
  have b: "bg_pc (bg_at 8) = 8" "bg_pc (bg_at (- 1)) = - 1" "length doubling_program = 8"
    by (simp_all add: bg_at_def doubling_program_def)
  from missing_line_is_EMPTY [of off_program_session "bg_at 8" doubling_program] o(1)
  have s: "step off_program_session =
      off_program_session\<lparr>history := (history off_program_session)
          (T (registers off_program_session) + 1 \<mapsto>
             (registers off_program_session)\<lparr>T := T (registers off_program_session) + 1\<rparr>),
        registers := (registers off_program_session)\<lparr>T := T (registers off_program_session) + 1\<rparr>,
        pc := pc off_program_session + 1\<rparr>"
    by blast
  show ?thesis
    using missing_line_is_EMPTY [of off_program_session "bg_at 8" doubling_program]
      missing_line_is_EMPTY [of off_program_session "bg_at (- 1)" doubling_program]
    unfolding s by (simp add: o b)
qed

section \<open>The history is keyed by the time of its snapshots\<close>




section \<open>The viewport\<close>

lemma fold_neighbours:
  "fold (\<lambda>num ks. insert (num + 1) (insert (num - 1) (insert num ks))) xs A =
     A \<union> (\<Union>k \<in> set xs. {k - 1, k, k + 1 :: int})"
  by (induction xs arbitrary: A) auto

lemma keysSet_eq:
  "keysSet prog cur = (\<Union>k \<in> fmdom' prog. {k - 1, k, k + 1}) \<union> {cur - 1, cur, cur + 1}"
  by (auto simp: keysSet_def fold_neighbours set_sortedKeys)

text \<open>
  Two members of a sorted list without repetitions that have no member strictly between
  them stand next to each other.
\<close>

lemma consecutive_in_sorted:
  fixes xs :: "int list"
  assumes "sorted xs" and "distinct xs" and "a \<in> set xs" and "b \<in> set xs" and "a < b"
    and none: "\<forall>c \<in> set xs. \<not> (a < c \<and> c < b)"
  shows "\<exists>i. Suc i < length xs \<and> xs ! i = a \<and> xs ! Suc i = b"
proof -
  from assms(3,4) obtain i j
    where i: "i < length xs" "xs ! i = a" and j: "j < length xs" "xs ! j = b"
    by (auto simp: in_set_conv_nth)
  have ij: "i < j"
  proof (rule ccontr)
    assume "\<not> i < j"
    then have "j \<le> i" by simp
    with assms(1) i(1) have "xs ! j \<le> xs ! i" by (simp add: sorted_iff_nth_mono)
    with i j assms(5) show False by simp
  qed
  have "j = Suc i"
  proof (rule ccontr)
    assume "j \<noteq> Suc i"
    with ij have lt: "Suc i < j" by simp
    let ?c = "xs ! Suc i"
    from lt j(1) have len: "Suc i < length xs" by simp
    from assms(1) len have "xs ! i \<le> ?c" by (simp add: sorted_iff_nth_mono)
    moreover from assms(1) lt j(1) have "?c \<le> xs ! j" by (simp add: sorted_iff_nth_mono)
    moreover from assms(2) i(1) len have "?c \<noteq> xs ! i" by (simp add: nth_eq_iff_index_eq)
    moreover from assms(2) j(1) len lt have "?c \<noteq> xs ! j" by (simp add: nth_eq_iff_index_eq)
    ultimately have "a < ?c \<and> ?c < b" using i(2) j(2) by simp
    moreover from len have "?c \<in> set xs" by simp
    ultimately show False using none by blast
  qed
  with i j show ?thesis by blast
qed

lemma concat_map_upt_split:
  assumes "Suc i < n"
  shows "concat (map f [0 ..< n]) =
           concat (map f [0 ..< i]) @ f i @ f (Suc i) @ concat (map f [Suc (Suc i) ..< n])"
proof -
  from assms have "[0 ..< n] = [0 ..< i] @ [i ..< n]"
    by (metis le_add_diff_inverse less_imp_le_nat Suc_lessD upt_add_eq_append zero_le)
  also from assms have "[i ..< n] = i # Suc i # [Suc (Suc i) ..< n]"
    by (simp add: upt_conv_Cons)
  finally show ?thesis by simp
qed

lemma filter_displayEntry:
  "filter (\<lambda>e. e \<noteq> Gap) (displayEntry prog keys i) = [Line (keys ! i) (fetch prog (keys ! i))]"
  by (simp add: displayEntry_def)

lemma lines_of_display:
  "filter (\<lambda>e. e \<noteq> Gap) (concat (map (displayEntry prog keys) [0 ..< length keys])) =
     map (\<lambda>k. Line k (fetch prog k)) keys"
proof -
  have "filter (\<lambda>e. e \<noteq> Gap) (concat (map (displayEntry prog keys) [0 ..< length keys])) =
        concat (map (\<lambda>i. [Line (keys ! i) (fetch prog (keys ! i))]) [0 ..< length keys])"
    by (simp add: filter_concat comp_def filter_displayEntry)
  also have "\<dots> = map (\<lambda>i. Line (keys ! i) (fetch prog (keys ! i))) [0 ..< length keys]"
    by (induction "[0 ..< length keys]") (simp_all add: concat_map_singleton)
  also have "\<dots> = map (\<lambda>k. Line k (fetch prog k)) (map (\<lambda>i. keys ! i) [0 ..< length keys])"
    by (simp add: comp_def)
  also have "\<dots> = map (\<lambda>k. Line k (fetch prog k)) keys"
    by (simp add: map_nth)
  finally show ?thesis .
qed

text \<open>
  Claim C8. Let \<open>S\<close> be the store's keys with their two neighbours, together with the
  counter and its two neighbours. The lines of the viewport, in order, are the members
  of \<open>S\<close> in ascending order, each with its stored instruction or EMPTY when the store
  has none. The viewport starts and ends with a line. For two members \<open>a < b\<close> of \<open>S\<close>
  with no member strictly between them, the line of \<open>b\<close> follows the line of \<open>a\<close> with
  exactly one gap marker between them when \<open>b - a > 1\<close>, and directly when \<open>b - a = 1\<close>.
\<close>

theorem viewport_gap_law:
  "(let S = (\<Union>k \<in> fmdom' prog. {k - 1, k, k + 1}) \<union> {cur - 1, cur, cur + 1};
        out = getDisplayedProgram prog cur
    in filter (\<lambda>e. e \<noteq> Gap) out = map (\<lambda>k. Line k (fetch prog k)) (sorted_list_of_set S) \<and>
       out \<noteq> [] \<and> hd out \<noteq> Gap \<and> last out \<noteq> Gap \<and>
       (\<forall>a \<in> S. \<forall>b \<in> S. a < b \<and> (\<forall>c \<in> S. \<not> (a < c \<and> c < b)) \<longrightarrow>
          (\<exists>pre post. out = pre @ [Line a (fetch prog a)] @
             (if b - a > 1 then [Gap] else []) @ [Line b (fetch prog b)] @ post)))"
proof -
  define S where "S = (\<Union>k \<in> fmdom' prog. {k - 1, k, k + 1}) \<union> {cur - 1, cur, cur + 1}"
  define keys where "keys = sorted_list_of_set S"
  define out where "out = getDisplayedProgram prog cur"
  have fin: "finite S" by (simp add: S_def)
  have S: "keysSet prog cur = S" by (simp add: keysSet_eq S_def)
  have out: "out = concat (map (displayEntry prog keys) [0 ..< length keys])"
    by (simp add: out_def getDisplayedProgram_def S keys_def Let_def)
  have srt: "sorted keys" and dst: "distinct keys" and st: "set keys = S"
    using fin by (simp_all add: keys_def)
  have ne: "keys \<noteq> []"
    using st by (auto simp: S_def)
  have lines: "filter (\<lambda>e. e \<noteq> Gap) out = map (\<lambda>k. Line k (fetch prog k)) keys"
    unfolding out by (rule lines_of_display)
  from ne obtain n where n: "length keys = Suc n" by (cases keys) auto
  have first: "hd out \<noteq> Gap" and nonempty: "out \<noteq> []"
    unfolding out n by (simp_all add: upt_rec [of 0] displayEntry_def)
  have lst: "last out \<noteq> Gap"
    unfolding out n by (simp add: displayEntry_def)
  have gap: "\<exists>pre post. out = pre @ [Line a (fetch prog a)] @
             (if b - a > 1 then [Gap] else []) @ [Line b (fetch prog b)] @ post"
    if "a \<in> S" "b \<in> S" "a < b" "\<forall>c \<in> S. \<not> (a < c \<and> c < b)" for a b
  proof -
    from consecutive_in_sorted [OF srt dst] that st
    obtain i where i: "Suc i < length keys" "keys ! i = a" "keys ! Suc i = b"
      by blast
    let ?f = "displayEntry prog keys"
    let ?g = "if i > 0 \<and> keys ! i - keys ! (i - 1) > 1 then [Gap] else []"
    have "out = concat (map ?f [0 ..< i]) @ ?f i @ ?f (Suc i) @
                concat (map ?f [Suc (Suc i) ..< length keys])"
      unfolding out by (rule concat_map_upt_split [OF i(1)])
    also have "?f i = ?g @ [Line a (fetch prog a)]"
      by (simp add: displayEntry_def i)
    also have "?f (Suc i) = (if b - a > 1 then [Gap] else []) @ [Line b (fetch prog b)]"
      by (simp add: displayEntry_def i)
    finally have "out = (concat (map ?f [0 ..< i]) @ ?g) @ [Line a (fetch prog a)] @
        (if b - a > 1 then [Gap] else []) @ [Line b (fetch prog b)] @
        concat (map ?f [Suc (Suc i) ..< length keys])"
      by simp
    then show ?thesis by blast
  qed
  from lines first nonempty lst gap show ?thesis
    unfolding Let_def S_def [symmetric] out_def [symmetric] keys_def [symmetric] by blast
qed

text \<open>The viewport of the store with lines 1 and 5, the counter on line 1.\<close>

lemma sparse_store_keys: "sorted_list_of_set (keysSet sparse_store 1) = [0, 1, 2, 4, 5, 6]"
proof -
  have "keysSet sparse_store 1 = set [0, 1, 2, 4, 5, 6]"
    by (auto simp: keysSet_def sortedKeys_def sparse_store_def)
  then show ?thesis
    by (simp only:) (rule sorted_list_of_set.idem_if_sorted_distinct, simp_all)
qed

lemma sparse_store_display:
  "getDisplayedProgram sparse_store 1 =
     [Line 0 EMPTY, Line 1 \<lparr>op = ''DEFUSE'', args = []\<rparr>, Line 2 EMPTY, Gap,
      Line 4 EMPTY, Line 5 \<lparr>op = ''EXPLODE'', args = []\<rparr>, Line 6 EMPTY]"
  unfolding getDisplayedProgram_def sparse_store_keys Let_def
  by (simp add: displayEntry_def fetch_def sparse_store_def)

theorem viewport_gap_law_witness:
  "(\<exists>pre post. getDisplayedProgram sparse_store 1 =
      pre @ [Line 2 EMPTY] @ [Gap] @ [Line 4 EMPTY] @ post) \<and>
   (\<exists>pre post. getDisplayedProgram sparse_store 1 =
      pre @ [Line 0 EMPTY] @ [] @ [Line 1 \<lparr>op = ''DEFUSE'', args = []\<rparr>] @ post) \<and>
   filter (\<lambda>e. e \<noteq> Gap) (getDisplayedProgram sparse_store 1) =
     [Line 0 EMPTY, Line 1 \<lparr>op = ''DEFUSE'', args = []\<rparr>, Line 2 EMPTY,
      Line 4 EMPTY, Line 5 \<lparr>op = ''EXPLODE'', args = []\<rparr>, Line 6 EMPTY]"
proof -
  have dom: "fmdom' sparse_store = {1, 5}"
    by (auto simp: sparse_store_def)
  have S: "(\<Union>k \<in> fmdom' sparse_store. {k - 1, k, k + 1}) \<union> {1 - 1, 1, 1 + 1} =
      set [0, 1, 2, 4, 5, 6 :: int]"
    unfolding dom by auto
  have keys: "sorted_list_of_set (set [0, 1, 2, 4, 5, 6 :: int]) = [0, 1, 2, 4, 5, 6]"
    by (rule sorted_list_of_set.idem_if_sorted_distinct) simp_all
  have f: "fetch sparse_store 0 = EMPTY" "fetch sparse_store 1 = \<lparr>op = ''DEFUSE'', args = []\<rparr>"
    "fetch sparse_store 2 = EMPTY" "fetch sparse_store 4 = EMPTY"
    "fetch sparse_store 5 = \<lparr>op = ''EXPLODE'', args = []\<rparr>" "fetch sparse_store 6 = EMPTY"
    by (simp_all add: fetch_def sparse_store_def)
  note law = viewport_gap_law [of sparse_store 1, unfolded Let_def S keys]
  from law have lines: "filter (\<lambda>e. e \<noteq> Gap) (getDisplayedProgram sparse_store 1) =
      map (\<lambda>k. Line k (fetch sparse_store k)) [0, 1, 2, 4, 5, 6]"
    by (rule conjunct1)
  from law have gaps: "\<forall>a \<in> set [0, 1, 2, 4, 5, 6]. \<forall>b \<in> set [0, 1, 2, 4, 5, 6].
      a < b \<and> (\<forall>c \<in> set [0, 1, 2, 4, 5, 6]. \<not> (a < c \<and> c < b)) \<longrightarrow>
      (\<exists>pre post. getDisplayedProgram sparse_store 1 = pre @ [Line a (fetch sparse_store a)] @
         (if b - a > 1 then [Gap] else []) @ [Line b (fetch sparse_store b)] @ post)"
    by (elim conjE)
  have g1: "\<exists>pre post. getDisplayedProgram sparse_store 1 =
      pre @ [Line 2 EMPTY] @ [Gap] @ [Line 4 EMPTY] @ post"
    using gaps [rule_format, of 2 4] by (simp add: f)
  have g2: "\<exists>pre post. getDisplayedProgram sparse_store 1 =
      pre @ [Line 0 EMPTY] @ [] @ [Line 1 \<lparr>op = ''DEFUSE'', args = []\<rparr>] @ post"
    using gaps [rule_format, of 0 1] by (simp add: f)
  from g1 g2 lines show ?thesis
    by (simp add: f)
qed

section \<open>The value resolver\<close>
















end
